theory Spec2Isabelle
  imports Complex_Main
begin

section \<open>The dictation toggle \<open>s2t.py\<close>\<close>

text \<open>
  The program is one Python file. One invocation either starts a detached capture worker
  and records it in a state file, or finds such a record, stops the worker, transcribes
  the audio file and pastes the text. The embedding follows the source function by
  function. Everything outside the process (file system, process table, clock, speech
  model, clipboard, notifier) is a field of a record \<open>world\<close> that says how each call
  into it answers; everything the process does to the outside is an \<open>event\<close> of a
  trace.
\<close>

subsection \<open>Blank transcripts: \<open>is_blank_audio\<close>\<close>

text \<open>
  A transcript is a Python \<open>str\<close>: a sequence of Unicode code points, here a list of
  naturals. \<open>str.isalpha\<close> and \<open>str.lower\<close> read the Unicode database of the Python
  runtime; it is not part of the program, so the two tables are parameters: for one
  character, whether it is a letter, and its lowercase form (which can be more than
  one character).
\<close>

type_synonym ustr = "nat list"

definition str :: "string \<Rightarrow> ustr" where
  "str s = map of_char s"

record unicode =
  py_isalpha :: "nat \<Rightarrow> bool"
  py_lower :: "nat \<Rightarrow> ustr"

text \<open>
  The third argument of \<open>str.maketrans('', '', ' \t\n\r.,!?;:\'"')\<close>: the characters
  that \<open>translate\<close> deletes. They are the space, tab, line feed and carriage return, and
  the eight punctuation marks \<open>. , ! ? ; : ' "\<close>.
\<close>

definition blank_chars :: ustr where
  "blank_chars = [32, 9, 10, 13, 46, 44, 33, 63, 59, 58, 39, 34]"

definition translate_delete :: "ustr \<Rightarrow> ustr \<Rightarrow> ustr" where
  "translate_delete del text = filter (\<lambda>c. c \<notin> set del) text"

definition is_blank_audio :: "unicode \<Rightarrow> ustr \<Rightarrow> bool" where
  "is_blank_audio u text =
     (let check = translate_delete blank_chars text
      in if check = [] then True
         else (let canon = concat (map (py_lower u) (filter (py_isalpha u) text))
               in if canon = str ''blankaudio'' then True else False))"

text \<open>
  What is known of the two tables on ASCII: the letters are A-Z and a-z, and lowering
  adds 32 to a capital and leaves every other character as it is.
\<close>

definition ascii_letter :: "nat \<Rightarrow> bool" where
  "ascii_letter n = ((65 \<le> n \<and> n \<le> 90) \<or> (97 \<le> n \<and> n \<le> 122))"

definition ascii_lower :: "nat \<Rightarrow> nat" where
  "ascii_lower n = (if 65 \<le> n \<and> n \<le> 90 then n + 32 else n)"

definition agrees_on_ascii :: "unicode \<Rightarrow> bool" where
  "agrees_on_ascii u =
     (\<forall>n < 128. py_isalpha u n = ascii_letter n \<and> py_lower u n = [ascii_lower n])"

text \<open>
  Tables to evaluate with: \<open>str.isalpha\<close> and \<open>str.lower\<close> on the code points below
  256, on the Kelvin sign U+212A (a letter whose lowercase is \<open>k\<close>) and on the dotted
  capital I U+0130 (a letter whose lowercase is \<open>i\<close> and the combining dot U+0307).
  Every other code point counts as no letter here, which the Unicode database does not
  say.
\<close>

definition latin_tables :: unicode where
  "latin_tables =
     \<lparr>py_isalpha = (\<lambda>n. ascii_letter n \<or> n = 170 \<or> n = 181 \<or> n = 186
                        \<or> (192 \<le> n \<and> n \<le> 214) \<or> (216 \<le> n \<and> n \<le> 246)
                        \<or> (248 \<le> n \<and> n \<le> 255) \<or> n = 304 \<or> n = 8490),
      py_lower = (\<lambda>n. if (65 \<le> n \<and> n \<le> 90) \<or> (192 \<le> n \<and> n \<le> 214)
                          \<or> (216 \<le> n \<and> n \<le> 222) then [n + 32]
                       else if n = 304 then [105, 775]
                       else if n = 8490 then [107]
                       else [n])\<rparr>"

text \<open>
  The classifier as the specification words it, to be compared with the one above:
  blank when nothing remains after removing whitespace and common punctuation, or when
  the letters of the text, case-folded, spell \<open>blankaudio\<close>. Whitespace is read as the
  six characters of Python's \<open>string.whitespace\<close> (space, tab, line feed, vertical tab,
  form feed, carriage return) and punctuation as the 32 characters of
  \<open>string.punctuation\<close>.
\<close>

definition is_whitespace :: "nat \<Rightarrow> bool" where
  "is_whitespace n = (n = 32 \<or> (9 \<le> n \<and> n \<le> 13))"

definition is_punctuation :: "nat \<Rightarrow> bool" where
  "is_punctuation n =
     ((33 \<le> n \<and> n \<le> 47) \<or> (58 \<le> n \<and> n \<le> 64) \<or> (91 \<le> n \<and> n \<le> 96)
      \<or> (123 \<le> n \<and> n \<le> 126))"

definition letters_folded :: "unicode \<Rightarrow> ustr \<Rightarrow> ustr" where
  "letters_folded u text = concat (map (py_lower u) (filter (py_isalpha u) text))"

definition blank_by_spec :: "unicode \<Rightarrow> ustr \<Rightarrow> bool" where
  "blank_by_spec u text =
     (filter (\<lambda>c. \<not> (is_whitespace c \<or> is_punctuation c)) text = []
      \<or> letters_folded u text = str ''blankaudio'')"

subsection \<open>What \<open>json.load\<close> returns\<close>

text \<open>
  \<open>json.load\<close> returns a Python value: \<open>None\<close>, a bool, an int, a float, a str, a
  list, or a dict with string keys. A dict is an association list in which each key
  occurs once. Keys, paths and log messages are only compared and tested for emptiness:
  they are HOL strings (the bytes of their UTF-8 form). A float is a rational or one of the three constants \<open>Infinity\<close>,
  \<open>-Infinity\<close> and \<open>NaN\<close> that \<open>json.load\<close> accepts.
\<close>

datatype pyfloat = Finite rat | PosInf | NegInf | NaN

datatype json =
    JNull
  | JBool bool
  | JInt int
  | JFloat pyfloat
  | JStr string
  | JArr "json list"
  | JObj "(string \<times> json) list"

datatype exn = AttributeError | TypeError | ValueError | OSError | PyperclipException
  | TranscribeError

text \<open>Python's truth value of a value, as \<open>not pid\<close> tests it.\<close>

fun truthy :: "json \<Rightarrow> bool" where
  "truthy JNull = False"
| "truthy (JBool b) = b"
| "truthy (JInt n) = (n \<noteq> 0)"
| "truthy (JFloat (Finite r)) = (r \<noteq> 0)"
| "truthy (JFloat f) = True"
| "truthy (JStr s) = (s \<noteq> [])"
| "truthy (JArr xs) = (xs \<noteq> [])"
| "truthy (JObj kvs) = (kvs \<noteq> [])"

text \<open>\<open>state.get(key)\<close>: only a dict has the method; a key not in it gives \<open>None\<close>.\<close>

fun py_get :: "json \<Rightarrow> string \<Rightarrow> exn + json" where
  "py_get (JObj kvs) key = (case map_of kvs key of None \<Rightarrow> Inr JNull | Some v \<Rightarrow> Inr v)"
| "py_get j key = Inl AttributeError"

subsection \<open>The outside world and the trace\<close>

datatype level = INFO | WARNING | ERROR

datatype event =
    Log level string
  | Kill int nat
  | Sleep
  | Fork int
  | WriteState int string
  | Unlink
  | NotifyStart
  | NotifyEnd
  | Transcribe string
  | ClipboardRead
  | ClipboardCopy ustr
  | Keystroke

datatype load_result = Raises | Loaded json

datatype write_outcome = Written | OpenRaises | DumpRaises

datatype kill_outcome = Delivered | NoSuchProcess | KillFails

datatype notifier = NoNotifier | NotifierRuns | NotifierRaises

datatype whisper_result = ModelRaises | TranscribeRaises | Heard ustr

datatype run_outcome = Ran | NonzeroExit | RunRaises

text \<open>
  \<^item> \<open>unicode_db\<close>: the tables behind \<open>str.isalpha\<close> and \<open>str.lower\<close>;
  \<^item> \<open>import_raises\<close>: whether an import in \<open>check_dependencies\<close> raises something other
    than \<open>ImportError\<close>; \<open>missing\<close>: the packages whose import raises \<open>ImportError\<close>;
  \<^item> \<open>state_file\<close>: \<open>None\<close> when \<open>STATE_FILE\<close> does not exist, else what opening it and
    \<open>json.load\<close> make of it: a value, or an exception;
  \<^item> \<open>unlink_fails\<close>: whether removing the state file raises;
  \<^item> \<open>write_result\<close>: the state file is written, or \<open>open(STATE_FILE, 'w')\<close> raises (the
    file stays as it was), or \<open>json.dump\<close> raises after the file was opened, which
    leaves a truncated file that \<open>json.load\<close> rejects;
  \<^item> \<open>fork_result\<close>: what \<open>os.fork()\<close> returns in this process (\<open>None\<close>: it raises);
  \<^item> \<open>timestamp\<close>: \<open>time.strftime("%Y%m%d-%H%M%S")\<close>; \<open>tmp_dir\<close>: \<open>str(TMP_DIR)\<close>, a
    normalised path;
  \<^item> \<open>terminal_notifier\<close>: \<open>shutil.which\<close> does not find the notifier, or
    \<open>subprocess.run\<close> runs it, or \<open>subprocess.run\<close> raises;
  \<^item> \<open>kill_result n\<close>: how the \<open>n\<close>-th call of \<open>os.kill\<close> of this invocation ends:
    the signal is delivered, \<open>ProcessLookupError\<close>, or another exception;
  \<^item> \<open>file_size p\<close>: \<open>None\<close> when path \<open>p\<close> does not exist at the time the audio file is
    validated, else its size;
  \<^item> \<open>whisper p\<close>: loading the model raises, or transcribing file \<open>p\<close> raises, or the
    stripped text that comes back;
  \<^item> \<open>clipboard_mode\<close>: \<open>S2T_CLIPBOARD\<close>; \<open>clipboard_paste\<close>: what \<open>pyperclip.paste()\<close>
    returns (\<open>None\<close>: it raises); \<open>copy_fails\<close>, \<open>restore_fails\<close>: whether
    \<open>pyperclip.copy\<close> raises for the text, and for the saved clipboard;
  \<^item> \<open>osascript\<close>: \<open>subprocess.run\<close> of the keystroke script returns after the keystroke,
    or returns with a nonzero exit status of \<open>osascript\<close> (which \<open>check=False\<close> ignores),
    or raises;
  \<^item> \<open>restore_sleep_raises\<close>: whether \<open>time.sleep(S2T_CLIPBOARD_RESTORE_DELAY)\<close> raises,
    as it does for a negative, a NaN or a too large delay.
\<close>

record world =
  unicode_db :: unicode
  import_raises :: bool
  missing :: "string list"
  state_file :: "load_result option"
  unlink_fails :: bool
  write_result :: write_outcome
  fork_result :: "int option"
  timestamp :: string
  tmp_dir :: string
  terminal_notifier :: notifier
  kill_result :: "nat \<Rightarrow> kill_outcome"
  file_size :: "string \<Rightarrow> nat option"
  whisper :: "string \<Rightarrow> whisper_result"
  clipboard_mode :: string
  clipboard_paste :: "ustr option"
  copy_fails :: bool
  osascript :: run_outcome
  restore_sleep_raises :: bool
  restore_fails :: bool

text \<open>
  How an invocation ends: \<open>sys.exit(n)\<close>, or, in the child that \<open>os.fork\<close> made (where it
  returned 0), by going on as the capture worker for an audio path (\<open>record_audio\<close> below).
\<close>

datatype outcome = Exit int | Worker string

record result =
  outcome :: outcome
  trace :: "event list"
  state_after :: "load_result option"

subsection \<open>The state file: \<open>read_state\<close>, \<open>write_state\<close>, \<open>clear_state\<close>\<close>

text \<open>Python's \<open>None\<close> is \<open>JNull\<close>: a state file holding \<open>null\<close> reads as no state.\<close>

definition read_state :: "world \<Rightarrow> json \<times> event list" where
  "read_state w =
     (case state_file w of
        None \<Rightarrow> (JNull, [])
      | Some Raises \<Rightarrow> (JNull, [Log ERROR ''Failed to read state''])
      | Some (Loaded j) \<Rightarrow> (j, []))"

definition session :: "int \<Rightarrow> string \<Rightarrow> json" where
  "session pid wav_path = JObj [(''pid'', JInt pid), (''wav_path'', JStr wav_path)]"

text \<open>
  \<open>write_state\<close> on the state file \<open>sf\<close> gives the file afterwards and the events:
  \<open>Inr\<close> when it returns, \<open>Inl\<close> when it logs the failure and calls \<open>sys.exit(1)\<close>.
\<close>

definition write_state ::
  "world \<Rightarrow> load_result option \<Rightarrow> int \<Rightarrow> string
     \<Rightarrow> (load_result option \<times> event list) + (load_result option \<times> event list)" where
  "write_state w sf pid wav_path =
     (case write_result w of
        Written \<Rightarrow> Inr (Some (Loaded (session pid wav_path)), [WriteState pid wav_path])
      | OpenRaises \<Rightarrow> Inl (sf, [Log ERROR ''Failed to write state''])
      | DumpRaises \<Rightarrow> Inl (Some Raises, [Log ERROR ''Failed to write state'']))"

definition clear_state :: "world \<Rightarrow> load_result option \<Rightarrow> load_result option \<times> event list" where
  "clear_state w sf =
     (case sf of
        None \<Rightarrow> (None, [])
      | Some c \<Rightarrow>
          if unlink_fails w then (Some c, [Log ERROR ''Failed to clear state''])
          else (None, [Unlink]))"

subsection \<open>Notifications: \<open>notify_start\<close>, \<open>notify_end\<close>\<close>

text \<open>
  Both look for \<open>terminal-notifier\<close> and run it with \<open>subprocess.run\<close> inside no \<open>try\<close>.
  Without it \<open>notify_start\<close> falls back to \<open>notify\<close>, which swallows every exception,
  and \<open>notify_end\<close> does nothing.
\<close>

definition notify_start :: "world \<Rightarrow> (exn + unit) \<times> event list" where
  "notify_start w =
     (case terminal_notifier w of
        NotifierRaises \<Rightarrow> (Inl OSError, [])
      | NotifierRuns \<Rightarrow> (Inr (), [NotifyStart])
      | NoNotifier \<Rightarrow> (Inr (), [NotifyStart]))"

definition notify_end :: "world \<Rightarrow> (exn + unit) \<times> event list" where
  "notify_end w =
     (case terminal_notifier w of
        NotifierRaises \<Rightarrow> (Inl OSError, [])
      | NotifierRuns \<Rightarrow> (Inr (), [NotifyEnd])
      | NoNotifier \<Rightarrow> (Inr (), []))"

subsection \<open>Stopping the worker: \<open>stop_daemon\<close>\<close>

text \<open>
  \<open>os.kill(pid, sig)\<close> as the \<open>n\<close>-th call of the invocation. A value that is not an
  int raises \<open>TypeError\<close> and an int outside the range of \<open>pid_t\<close> raises
  \<open>OverflowError\<close>, both before any signal is sent; a bool is the int 0 or 1.
\<close>

definition os_kill :: "world \<Rightarrow> nat \<Rightarrow> json \<Rightarrow> nat \<Rightarrow> kill_outcome \<times> event list" where
  "os_kill w n pid sig =
     (case pid of
        JInt p \<Rightarrow>
          if - (2 ^ 31) \<le> p \<and> p < 2 ^ 31 then (kill_result w n, [Kill p sig])
          else (KillFails, [])
      | JBool b \<Rightarrow> (kill_result w n, [Kill (if b then 1 else 0) sig])
      | _ \<Rightarrow> (KillFails, []))"

definition SIGINT :: nat where
  "SIGINT = 2"

text \<open>
  The loop \<open>for _ in range(50)\<close> with \<open>k\<close> rounds left, its next \<open>os.kill(pid, 0)\<close>
  being call \<open>n\<close>. \<open>ProcessLookupError\<close> is caught inside the loop; any other
  exception reaches the handler at the end of \<open>stop_daemon\<close>.
\<close>

fun wait_exit :: "world \<Rightarrow> json \<Rightarrow> nat \<Rightarrow> nat \<Rightarrow> bool \<times> event list" where
  "wait_exit w pid n 0 = (False, [Log WARNING ''Daemon did not exit within 5 seconds''])"
| "wait_exit w pid n (Suc k) =
     (case os_kill w n pid 0 of
        (Delivered, es) \<Rightarrow>
          (let (r, es') = wait_exit w pid (Suc n) k in (r, es @ [Sleep] @ es'))
      | (NoSuchProcess, es) \<Rightarrow> (True, es)
      | (KillFails, es) \<Rightarrow> (False, es @ [Log ERROR ''Failed to stop daemon'']))"

definition stop_daemon :: "world \<Rightarrow> json \<Rightarrow> bool \<times> event list" where
  "stop_daemon w pid =
     (case os_kill w 0 pid SIGINT of
        (Delivered, es) \<Rightarrow> (let (r, es') = wait_exit w pid 1 50 in (r, es @ es'))
      | (NoSuchProcess, es) \<Rightarrow> (True, es)
      | (KillFails, es) \<Rightarrow> (False, es @ [Log ERROR ''Failed to stop daemon'']))"

subsection \<open>Transcription and delivery: \<open>transcribe\<close>, \<open>paste_text\<close>\<close>

text \<open>
  The speech model is outside the program: \<open>transcribe\<close> is its call, the event
  \<open>Transcribe\<close>, and the text or the exception that comes back. An exception while the
  model is loaded comes before \<open>Transcribing...\<close> is logged, one while it transcribes
  after.
\<close>

definition transcribe :: "world \<Rightarrow> string \<Rightarrow> (exn + ustr) \<times> event list" where
  "transcribe w wav_path =
     (case whisper w wav_path of
        ModelRaises \<Rightarrow> (Inl TranscribeError, [Transcribe wav_path, Log INFO ''Loading model''])
      | TranscribeRaises \<Rightarrow>
          (Inl TranscribeError,
           [Transcribe wav_path, Log INFO ''Loading model'', Log INFO ''Transcribing...''])
      | Heard text \<Rightarrow>
          (Inr text,
           [Transcribe wav_path, Log INFO ''Loading model'', Log INFO ''Transcribing...'',
            Log INFO ''Transcription'']))"

text \<open>
  \<open>paste_text\<close>: reading the old clipboard and restoring it are inside
  \<open>try ... except Exception: pass\<close>, the keystroke is inside a \<open>try\<close> that logs a
  warning, and \<open>pyperclip.copy(text)\<close> and the \<open>time.sleep\<close> before the restore are
  inside no \<open>try\<close>. The event \<open>Keystroke\<close> is the keystroke done; \<open>osascript\<close> ending
  with a nonzero status leaves no event and no log line.
\<close>

definition paste_text :: "world \<Rightarrow> ustr \<Rightarrow> (exn + unit) \<times> event list" where
  "paste_text w text =
     (let saved_clipboard = (if clipboard_mode w = ''preserve'' then clipboard_paste w else None);
          es0 = (if clipboard_mode w = ''preserve'' then [ClipboardRead] else [])
      in if copy_fails w then (Inl PyperclipException, es0)
         else
           (let es1 = (case osascript w of
                         Ran \<Rightarrow> [Keystroke]
                       | NonzeroExit \<Rightarrow> []
                       | RunRaises \<Rightarrow> [Log WARNING ''Failed to paste''])
            in case saved_clipboard of
                 None \<Rightarrow> (Inr (), es0 @ [ClipboardCopy text] @ es1)
               | Some s \<Rightarrow>
                   if restore_sleep_raises w then
                     (Inl ValueError, es0 @ [ClipboardCopy text] @ es1)
                   else
                     (Inr (),
                      es0 @ [ClipboardCopy text] @ es1 @ [Sleep]
                        @ (if restore_fails w then [] else [ClipboardCopy s]))))"

subsection \<open>The entry point: \<open>main\<close>\<close>

text \<open>
  The handler around \<open>main()\<close>: an exception that nothing caught is logged as an error
  and the process exits with status 1. (\<open>KeyboardInterrupt\<close>, status 130, comes from the
  terminal at any moment and is not part of the model, nor is a failure of the
  \<open>mkdir\<close> calls.)
\<close>

definition unhandled :: "event list \<Rightarrow> load_result option \<Rightarrow> result" where
  "unhandled tr sf = \<lparr>outcome = Exit 1, trace = tr @ [Log ERROR ''Error''], state_after = sf\<rparr>"

text \<open>
  The stop branch from \<open>wav_file = Path(wav_path)\<close> on: \<open>Path\<close> of a value that is not
  a str raises \<open>TypeError\<close>.
\<close>

definition check_and_transcribe :: "world \<Rightarrow> json \<Rightarrow> event list \<Rightarrow> load_result option \<Rightarrow> result" where
  "check_and_transcribe w wav_path tr sf =
     (case wav_path of
        JStr p \<Rightarrow>
          (case file_size w p of
             None \<Rightarrow>
               \<lparr>outcome = Exit 1, trace = tr @ [Log ERROR ''Recording file missing''],
                state_after = sf\<rparr>
           | Some n \<Rightarrow>
               if n = 0 then
                 \<lparr>outcome = Exit 1, trace = tr @ [Log ERROR ''Recording file is empty''],
                  state_after = sf\<rparr>
               else
                 (case transcribe w p of
                    (Inl e, es) \<Rightarrow> unhandled (tr @ es) sf
                  | (Inr text, es) \<Rightarrow>
                      if is_blank_audio (unicode_db w) text then
                        \<lparr>outcome = Exit 0,
                         trace = tr @ es @ [Log INFO ''Blank audio detected, skipping paste''],
                         state_after = sf\<rparr>
                      else
                        (case paste_text w text of
                           (Inl e, es') \<Rightarrow> unhandled (tr @ es @ es') sf
                         | (Inr u, es') \<Rightarrow>
                             \<lparr>outcome = Exit 0, trace = tr @ es @ es' @ [Log INFO ''Done''],
                              state_after = sf\<rparr>)))
      | _ \<Rightarrow> unhandled tr sf)"

text \<open>
  The stop branch from \<open>notify_end()\<close> on: an exception of \<open>notify_end\<close> reaches the
  handler before the audio file is looked at.
\<close>

definition dismiss_and_check :: "world \<Rightarrow> json \<Rightarrow> event list \<Rightarrow> load_result option \<Rightarrow> result" where
  "dismiss_and_check w wav_path tr sf =
     (case notify_end w of
        (Inl e, es) \<Rightarrow> unhandled (tr @ es) sf
      | (Inr u, es) \<Rightarrow> check_and_transcribe w wav_path (tr @ es) sf)"

text \<open>The branch \<open>if state is not None\<close> of \<open>main\<close>.\<close>

definition stop_recording :: "world \<Rightarrow> json \<Rightarrow> event list \<Rightarrow> result" where
  "stop_recording w state tr =
     (case py_get state ''pid'' of
        Inl e \<Rightarrow> unhandled tr (state_file w)
      | Inr pid \<Rightarrow>
          (case py_get state ''wav_path'' of
             Inl e \<Rightarrow> unhandled tr (state_file w)
           | Inr wav_path \<Rightarrow>
               if \<not> truthy pid \<or> \<not> truthy wav_path then
                 (let (sf, es) = clear_state w (state_file w)
                  in \<lparr>outcome = Exit 1, trace = tr @ [Log ERROR ''Invalid state file''] @ es,
                      state_after = sf\<rparr>)
               else
                 (let (ok, es1) = stop_daemon w pid;
                      (sf, es2) = clear_state w (state_file w)
                  in dismiss_and_check w wav_path
                       (tr @ [Log INFO ''Stopping recording...''] @ es1 @ es2) sf)))"

text \<open>
  \<open>daemonize_and_record\<close> in the launcher: the child's pid comes back from \<open>os.fork\<close>
  (the event \<open>Fork\<close>), the state is written, the notification sent, and the launcher
  exits; an exception of \<open>notify_start\<close> reaches the handler after the state was
  written. Where \<open>os.fork\<close> returned 0 the process is the child: it detaches, redirects
  its standard streams and runs \<open>record_audio\<close>, which is modelled on its own below.
\<close>

definition daemonize_and_record :: "world \<Rightarrow> string \<Rightarrow> event list \<Rightarrow> result" where
  "daemonize_and_record w wav_path tr =
     (case fork_result w of
        None \<Rightarrow> unhandled tr (state_file w)
      | Some pid \<Rightarrow>
          if pid > 0 then
            (case write_state w (state_file w) pid wav_path of
               Inl (sf, es) \<Rightarrow>
                 \<lparr>outcome = Exit 1, trace = tr @ [Fork pid] @ es, state_after = sf\<rparr>
             | Inr (sf, es) \<Rightarrow>
                 (case notify_start w of
                    (Inl e, es') \<Rightarrow> unhandled (tr @ [Fork pid] @ es @ es') sf
                  | (Inr u, es') \<Rightarrow>
                      \<lparr>outcome = Exit 0,
                       trace = tr @ [Fork pid] @ es @ es'
                         @ [Log INFO ''recording started (run again to stop)''],
                       state_after = sf\<rparr>))
          else \<lparr>outcome = Worker wav_path, trace = tr, state_after = state_file w\<rparr>)"

text \<open>
  \<open>str(TMP_DIR / name)\<close> for a file name without a slash: \<open>pathlib\<close> puts one slash
  between the two, none after a directory that ends in one (the root), and drops the
  directory \<open>.\<close>.
\<close>

definition path_join :: "string \<Rightarrow> string \<Rightarrow> string" where
  "path_join dir name =
     (if dir = [] \<or> dir = ''.'' then name
      else if last dir = CHR ''/'' then dir @ name
      else dir @ ''/'' @ name)"

definition new_wav_path :: "world \<Rightarrow> string" where
  "new_wav_path w = path_join (tmp_dir w) (''rec-'' @ timestamp w @ ''.wav'')"

text \<open>
  \<open>check_dependencies\<close> returns (\<open>None\<close>), or the invocation exits with status 1 after
  the events given: through the handler around \<open>main()\<close> when an import raises something
  other than \<open>ImportError\<close>, through \<open>sys.exit(1)\<close> when packages are missing.
\<close>

definition check_dependencies :: "world \<Rightarrow> event list option" where
  "check_dependencies w =
     (if import_raises w then Some [Log ERROR ''Error'']
      else if missing w \<noteq> [] then
        Some [Log ERROR ''Missing dependencies'', Log ERROR ''Install with: pip install'']
      else None)"

definition main :: "world \<Rightarrow> result" where
  "main w =
     (case check_dependencies w of
        Some es \<Rightarrow> \<lparr>outcome = Exit 1, trace = es, state_after = state_file w\<rparr>
      | None \<Rightarrow>
          (let (state, tr) = read_state w
           in if state \<noteq> JNull then stop_recording w state tr
              else daemonize_and_record w (new_wav_path w) tr))"

subsection \<open>The capture worker: \<open>record_audio\<close>\<close>

text \<open>
  What happens while the input stream is open, in order: the audio subsystem calls
  \<open>callback\<close> with a chunk (\<open>Chunk elapsed status indata\<close>, where \<open>elapsed\<close> is
  \<open>time.monotonic() - start_time\<close> as the callback reads it), or a \<open>SIGINT\<close> or
  \<open>SIGTERM\<close> arrives and \<open>signal_handler\<close> runs. A chunk is a list of samples.
\<close>

datatype 'a delivery = Chunk rat bool "'a list" | Signal

record 'a capture =
  timer_triggered :: bool
  stop_event :: bool
  audio_data :: "'a list list"
  worker_log :: "event list"

definition callback :: "int \<Rightarrow> 'a capture \<Rightarrow> rat \<Rightarrow> bool \<Rightarrow> 'a list \<Rightarrow> 'a capture" where
  "callback max_seconds st elapsed status indata =
     (let st1 = (if status then st\<lparr>worker_log := worker_log st @ [Log WARNING ''Audio status'']\<rparr>
                 else st)
      in if max_seconds > 0 \<and> \<not> timer_triggered st1 \<and> of_int max_seconds \<le> elapsed then
           st1\<lparr>timer_triggered := True, stop_event := True,
               worker_log := worker_log st1 @ [Log INFO ''Max recording time reached'']\<rparr>
         else if \<not> stop_event st1 then st1\<lparr>audio_data := audio_data st1 @ [indata]\<rparr>
         else st1)"

definition signal_handler :: "'a capture \<Rightarrow> 'a capture" where
  "signal_handler st = st\<lparr>stop_event := True\<rparr>"

fun deliver :: "int \<Rightarrow> 'a capture \<Rightarrow> 'a delivery list \<Rightarrow> 'a capture" where
  "deliver max_seconds st [] = st"
| "deliver max_seconds st (Chunk elapsed status indata # ds) =
     deliver max_seconds (callback max_seconds st elapsed status indata) ds"
| "deliver max_seconds st (Signal # ds) = deliver max_seconds (signal_handler st) ds"

definition start_capture :: "'a capture" where
  "start_capture =
     \<lparr>timer_triggered = False, stop_event = False, audio_data = [],
      worker_log = [Log INFO ''Recording to'', Log INFO ''Max duration'']\<rparr>"

record 'a recording =
  wav :: "'a list option"
  exit_status :: int
  daemon_log :: "event list"

text \<open>
  \<open>record_audio\<close> for the deliveries \<open>ds\<close> of the stream's lifetime (the choice of
  the input device and its log lines are left out). The loop
  \<open>while not stop_event.is_set()\<close> ends only once the event is set: when no delivery
  sets it the function does not return, the value \<open>None\<close>. \<open>device_ok\<close> and \<open>write_ok\<close>
  say whether opening the stream and writing the file succeed; an exception in either
  is logged and ends the worker with status 1. The file written is
  \<open>np.concatenate(audio_data)\<close>, and none is written for an empty buffer.
\<close>

definition record_audio :: "int \<Rightarrow> bool \<Rightarrow> bool \<Rightarrow> 'a delivery list \<Rightarrow> 'a recording option" where
  "record_audio max_seconds device_ok write_ok ds =
     (if \<not> device_ok then
        Some \<lparr>wav = None, exit_status = 1, daemon_log = [Log ERROR ''Recording error'']\<rparr>
      else
        (let st = deliver max_seconds start_capture ds
         in if \<not> stop_event st then None
            else if audio_data st \<noteq> [] then
              (if write_ok then
                 Some \<lparr>wav = Some (concat (audio_data st)), exit_status = 0,
                       daemon_log = worker_log st
                         @ [Log INFO ''Writing WAV file...'', Log INFO ''Recording saved'']\<rparr>
               else
                 Some \<lparr>wav = None, exit_status = 1,
                       daemon_log = worker_log st
                         @ [Log INFO ''Writing WAV file...'', Log ERROR ''Recording error'']\<rparr>)
            else
              Some \<lparr>wav = None, exit_status = 0,
                    daemon_log = worker_log st @ [Log WARNING ''No audio data recorded'']\<rparr>))"

text \<open>Reading a run: the chunks of a list of deliveries, and how often the timer fired.\<close>

fun is_chunk :: "'a delivery \<Rightarrow> bool" where
  "is_chunk (Chunk elapsed status indata) = True"
| "is_chunk Signal = False"

fun chunks :: "'a delivery list \<Rightarrow> 'a list list" where
  "chunks [] = []"
| "chunks (Chunk elapsed status indata # ds) = indata # chunks ds"
| "chunks (Signal # ds) = chunks ds"

fun early :: "int \<Rightarrow> 'a delivery \<Rightarrow> bool" where
  "early max_seconds (Chunk elapsed status indata) = (elapsed < of_int max_seconds)"
| "early max_seconds Signal = True"

definition timer_raised :: "'a capture \<Rightarrow> nat" where
  "timer_raised st = count_list (worker_log st) (Log INFO ''Max recording time reached'')"

subsection \<open>Reading traces and states\<close>

text \<open>
  Kinds of events: those \<open>stop_daemon\<close> can make; those of a fresh start (a worker
  spawned, a Session written); a call of the transcription; a signal sent.
\<close>

fun signalling :: "event \<Rightarrow> bool" where
  "signalling (Kill p s) = True"
| "signalling Sleep = True"
| "signalling (Log l m) = True"
| "signalling e = False"

fun starts :: "event \<Rightarrow> bool" where
  "starts (Fork p) = True"
| "starts (WriteState p q) = True"
| "starts e = False"

fun transcribes :: "event \<Rightarrow> bool" where
  "transcribes (Transcribe p) = True"
| "transcribes e = False"

fun signals :: "event \<Rightarrow> bool" where
  "signals (Kill p s) = True"
| "signals e = False"

text \<open>
  A well-formed Session: a dict whose \<open>pid\<close> is a nonzero int and whose \<open>wav_path\<close>
  is a non-empty str.
\<close>

definition well_formed :: "json \<Rightarrow> int \<Rightarrow> string \<Rightarrow> bool" where
  "well_formed state pid wav_path =
     (py_get state ''pid'' = Inr (JInt pid) \<and> py_get state ''wav_path'' = Inr (JStr wav_path)
      \<and> pid \<noteq> 0 \<and> wav_path \<noteq> [])"

text \<open>
  Two worlds to evaluate on: no state file, and the state file of a worker 4242 that has
  gone, with no audio file written.
\<close>

definition idle_world :: world where
  "idle_world =
     \<lparr>unicode_db = latin_tables, import_raises = False, missing = [], state_file = None,
      unlink_fails = False, write_result = Written, fork_result = Some 4242,
      timestamp = ''20240101-120000'', tmp_dir = ''/tmp/s2t'',
      terminal_notifier = NotifierRuns, kill_result = (\<lambda>n. NoSuchProcess),
      file_size = (\<lambda>p. None), whisper = (\<lambda>p. ModelRaises), clipboard_mode = ''clipboard'',
      clipboard_paste = Some (str ''old''), copy_fails = False, osascript = Ran,
      restore_sleep_raises = False, restore_fails = False\<rparr>"

definition active_world :: world where
  "active_world = idle_world\<lparr>state_file := Some (Loaded (session 4242 ''/tmp/s2t/rec.wav''))\<rparr>"

text \<open>
  More worlds to evaluate on. The audio file of the recorded worker exists but is empty;
  the worker takes the signal and is gone at the third poll; it never exits; it cannot
  be signalled; the notifier cannot be run.
\<close>

definition empty_wav_world :: world where
  "empty_wav_world = active_world\<lparr>file_size := (\<lambda>p. Some 0)\<rparr>"

definition exiting_world :: world where
  "exiting_world =
     active_world\<lparr>kill_result := (\<lambda>n. if n < 3 then Delivered else NoSuchProcess)\<rparr>"

definition stuck_world :: world where
  "stuck_world = active_world\<lparr>kill_result := (\<lambda>n. Delivered)\<rparr>"

definition unsignalled_world :: world where
  "unsignalled_world = active_world\<lparr>kill_result := (\<lambda>n. KillFails)\<rparr>"


text \<open>
  State files that are not a Session: a dict without \<open>pid\<close>, a pid of 0, an empty
  path, an empty dict, a list, and a file that \<open>json.load\<close> rejects.
\<close>

definition no_pid_world :: world where
  "no_pid_world =
     idle_world\<lparr>state_file := Some (Loaded (JObj [(''wav_path'', JStr ''/tmp/s2t/rec.wav'')]))\<rparr>"

definition zero_pid_world :: world where
  "zero_pid_world = idle_world\<lparr>state_file := Some (Loaded (session 0 ''/tmp/s2t/rec.wav''))\<rparr>"

definition empty_path_world :: world where
  "empty_path_world = idle_world\<lparr>state_file := Some (Loaded (session 4242 []))\<rparr>"









section \<open>Properties\<close>

subsection \<open>The capture worker\<close>

lemma deliver_append:
  "deliver D st (xs @ ys) = deliver D (deliver D st xs) ys"
  by (induction D st xs rule: deliver.induct) simp_all

lemma callback_stopped:
  "stop_event st \<Longrightarrow>
     stop_event (callback D st t s x) \<and> audio_data (callback D st t s x) = audio_data st"
  by (simp add: callback_def Let_def)

lemma deliver_stopped:
  "stop_event st \<Longrightarrow>
     stop_event (deliver D st ds) \<and> audio_data (deliver D st ds) = audio_data st"
proof (induction D st ds rule: deliver.induct)
  case (1 D st)
  then show ?case by simp
next
  case (2 D st t s x ds)
  then show ?case using callback_stopped [of st D t s x] by simp
next
  case (3 D st ds)
  then show ?case by (simp add: signal_handler_def)
qed

lemma callback_triggered:
  "timer_triggered st \<Longrightarrow>
     timer_triggered (callback D st t s x) \<and> timer_raised (callback D st t s x) = timer_raised st"
  by (simp add: callback_def Let_def timer_raised_def)

lemma deliver_triggered:
  "timer_triggered st \<Longrightarrow>
     timer_triggered (deliver D st ds) \<and> timer_raised (deliver D st ds) = timer_raised st"
proof (induction D st ds rule: deliver.induct)
  case (1 D st)
  then show ?case by simp
next
  case (2 D st t s x ds)
  then show ?case using callback_triggered [of st D t s x] by simp
next
  case (3 D st ds)
  then show ?case by (simp add: signal_handler_def timer_raised_def)
qed

lemma callback_early:
  "t < of_int D \<Longrightarrow> \<not> timer_triggered st \<Longrightarrow>
     \<not> timer_triggered (callback D st t s x)
     \<and> timer_raised (callback D st t s x) = timer_raised st
     \<and> stop_event (callback D st t s x) = stop_event st
     \<and> audio_data (callback D st t s x) = audio_data st @ (if stop_event st then [] else [x])"
  by (simp add: callback_def Let_def timer_raised_def)

lemma deliver_early:
  "\<forall>d \<in> set ds. early D d \<Longrightarrow> \<not> timer_triggered st \<Longrightarrow>
     \<not> timer_triggered (deliver D st ds)
     \<and> timer_raised (deliver D st ds) = timer_raised st
     \<and> audio_data (deliver D st ds) =
         audio_data st @ (if stop_event st then [] else chunks (takeWhile is_chunk ds))"
proof (induction D st ds rule: deliver.induct)
  case (1 D st)
  then show ?case by simp
next
  case (2 D st t s x ds)
  then show ?case using callback_early [of t D st s x] by simp
next
  case (3 D st ds)
  have "stop_event (signal_handler st)" by (simp add: signal_handler_def)
  then have "audio_data (deliver D (signal_handler st) ds) = audio_data (signal_handler st)"
    using deliver_stopped by blast
  with 3 show ?case by (simp add: signal_handler_def timer_raised_def)
qed

lemma callback_late:
  "0 < D \<Longrightarrow> of_int D \<le> t \<Longrightarrow> \<not> timer_triggered st \<Longrightarrow>
     timer_triggered (callback D st t s x) \<and> stop_event (callback D st t s x)
     \<and> timer_raised (callback D st t s x) = Suc (timer_raised st)
     \<and> audio_data (callback D st t s x) = audio_data st"
  by (simp add: callback_def Let_def timer_raised_def)


text \<open>
  C2. With a maximum duration \<open>D > 0\<close>, let the deliveries be \<open>pre\<close>, whose chunks all
  come before \<open>D\<close>, then a chunk at an elapsed time of \<open>D\<close> or more, then \<open>post\<close>.
  That chunk raises the cancellation (the timer is raised once in the whole run, not at
  all in \<open>pre\<close>, and the stop event is set), it is not appended, and nothing of \<open>post\<close>
  is: the buffer at the end is the buffer after \<open>pre\<close>, the chunks of \<open>pre\<close> in arrival
  order (those before a signal, if one came first). \<open>record_audio\<close> returns, and the
  file it wrote is their concatenation (no file when there are none).
\<close>

theorem duration_cutoff:
  assumes D: "0 < D"
    and pre: "\<forall>d \<in> set pre. early D d"
    and late: "of_int D \<le> elapsed"
  shows "audio_data (deliver D start_capture (pre @ Chunk elapsed status indata # post))
           = audio_data (deliver D start_capture pre)
       \<and> audio_data (deliver D start_capture pre) = chunks (takeWhile is_chunk pre)
       \<and> timer_raised (deliver D start_capture pre) = 0
       \<and> timer_raised (deliver D start_capture (pre @ Chunk elapsed status indata # post)) = 1
       \<and> stop_event (deliver D start_capture (pre @ Chunk elapsed status indata # post))
       \<and> map_option wav (record_audio D True True (pre @ Chunk elapsed status indata # post))
           = Some (if chunks (takeWhile is_chunk pre) = [] then None
                   else Some (concat (chunks (takeWhile is_chunk pre))))"
proof -
  let ?b = "deliver D start_capture pre"
  let ?c = "callback D ?b elapsed status indata"
  let ?f = "deliver D start_capture (pre @ Chunk elapsed status indata # post)"
  have s0: "\<not> timer_triggered (start_capture :: 'a capture)" "\<not> stop_event (start_capture :: 'a capture)"
    "audio_data (start_capture :: 'a capture) = []" "timer_raised (start_capture :: 'a capture) = 0"
    by (simp_all add: start_capture_def timer_raised_def)
  from deliver_early [OF pre s0(1)] s0
  have b: "\<not> timer_triggered ?b" "timer_raised ?b = 0"
    "audio_data ?b = chunks (takeWhile is_chunk pre)"
    by simp_all
  from callback_late [OF D late b(1)] b
  have c: "timer_triggered ?c" "stop_event ?c" "timer_raised ?c = 1" "audio_data ?c = audio_data ?b"
    by simp_all
  have f: "?f = deliver D ?c post" by (simp add: deliver_append)
  from deliver_stopped [OF c(2)] deliver_triggered [OF c(1)] c f
  have fin: "stop_event ?f" "audio_data ?f = audio_data ?b" "timer_raised ?f = 1"
    by simp_all
  have rec: "map_option wav (record_audio D True True (pre @ Chunk elapsed status indata # post))
           = Some (if chunks (takeWhile is_chunk pre) = [] then None
                   else Some (concat (chunks (takeWhile is_chunk pre))))"
    using fin b(3) by (simp add: record_audio_def Let_def)
  from fin b rec show ?thesis by simp
qed

theorem duration_cutoff_witness:
  "audio_data (deliver 2 start_capture
       [Chunk 0 False [1::int, 2], Chunk 1 False [3], Chunk 2 False [4], Chunk 3 False [5]])
     = [[1, 2], [3]]
   \<and> timer_raised (deliver 2 start_capture
       [Chunk 0 False [1::int, 2], Chunk 1 False [3], Chunk 2 False [4], Chunk 3 False [5]]) = 1
   \<and> map_option wav (record_audio 2 True True
       [Chunk 0 False [1::int, 2], Chunk 1 False [3], Chunk 2 False [4], Chunk 3 False [5]])
     = Some (Some [1, 2, 3])"
  using duration_cutoff [of 2 "[Chunk 0 False [1::int, 2], Chunk 1 False [3]]" 2 False "[4]"
      "[Chunk 3 False [5]]"]
  by simp

subsection \<open>The blank classifier\<close>

lemma str_blankaudio: "str ''blankaudio'' = [98, 108, 97, 110, 107, 97, 117, 100, 105, 111]"
  by (simp add: str_def)

lemma is_blank_audio_iff:
  "is_blank_audio u text =
     (set text \<subseteq> set blank_chars \<or> letters_folded u text = str ''blankaudio'')"
  by (auto simp add: is_blank_audio_def translate_delete_def letters_folded_def Let_def
      filter_empty_conv)

lemma blank_chars_spec: "c \<in> set blank_chars \<Longrightarrow> is_whitespace c \<or> is_punctuation c"
  by (auto simp add: blank_chars_def is_whitespace_def is_punctuation_def)

lemma is_blank_audio_by_spec: "is_blank_audio u text \<Longrightarrow> blank_by_spec u text"
  using blank_chars_spec
  by (auto simp add: is_blank_audio_iff blank_by_spec_def filter_empty_conv)

lemma latin_agrees: "agrees_on_ascii latin_tables"
  by (auto simp add: agrees_on_ascii_def latin_tables_def ascii_letter_def ascii_lower_def)

lemma ascii_examples:
  assumes "agrees_on_ascii u"
  shows "is_blank_audio u (str ''   ...!?'')"
    and "is_blank_audio u (str [])"
    and "is_blank_audio u (str ''Blank Audio'')"
    and "is_blank_audio u (str ''BLANKAUDIO'')"
    and "\<not> is_blank_audio u (str ''blank audio test'')"
    and "\<not> is_blank_audio u (str ''Hello, world.'')"
    and "\<not> is_blank_audio u [12]"
    and "\<not> is_blank_audio u (str ''-'')"
proof -
  from assms have a: "\<And>n. n < 128 \<Longrightarrow> py_isalpha u n = ascii_letter n"
    and l: "\<And>n. n < 128 \<Longrightarrow> py_lower u n = [ascii_lower n]"
    by (simp_all add: agrees_on_ascii_def)
  show "is_blank_audio u (str ''   ...!?'')"
    by (simp add: is_blank_audio_iff str_def blank_chars_def)
  show "is_blank_audio u (str [])"
    by (simp add: is_blank_audio_iff str_def)
  show "is_blank_audio u (str ''Blank Audio'')"
    by (simp add: is_blank_audio_iff letters_folded_def str_def a l ascii_letter_def
        ascii_lower_def)
  show "is_blank_audio u (str ''BLANKAUDIO'')"
    by (simp add: is_blank_audio_iff letters_folded_def str_def a l ascii_letter_def
        ascii_lower_def)
  show "\<not> is_blank_audio u (str ''blank audio test'')"
    by (simp add: is_blank_audio_iff letters_folded_def str_def blank_chars_def a l
        ascii_letter_def ascii_lower_def)
  show "\<not> is_blank_audio u (str ''Hello, world.'')"
    by (simp add: is_blank_audio_iff letters_folded_def str_def blank_chars_def a l
        ascii_letter_def ascii_lower_def)
  show "\<not> is_blank_audio u [12]"
    by (simp add: is_blank_audio_iff letters_folded_def str_blankaudio blank_chars_def a l
        ascii_letter_def ascii_lower_def)
  show "\<not> is_blank_audio u (str ''-'')"
    by (simp add: is_blank_audio_iff letters_folded_def str_def blank_chars_def a l
        ascii_letter_def ascii_lower_def)
qed

text \<open>
  C3 as stated fails. Deleting whitespace and punctuation from a text that is one form
  feed, or one hyphen, leaves nothing, yet \<open>is_blank_audio\<close> returns \<open>False\<close> for both:
  \<open>translate\<close> deletes the twelve characters of its table and no other.
\<close>

theorem whitespace_kept_counterexample:
  "blank_by_spec latin_tables [12]
   \<and> \<not> is_blank_audio latin_tables [12]
   \<and> blank_by_spec latin_tables (str ''-'')
   \<and> \<not> is_blank_audio latin_tables (str ''-'')"
proof -
  have s: "blank_by_spec latin_tables [12]" "blank_by_spec latin_tables (str ''-'')"
    by (simp_all add: blank_by_spec_def is_whitespace_def is_punctuation_def str_def)
  from s ascii_examples(7,8) [OF latin_agrees] show ?thesis by simp
qed

text \<open>
  C3, amended. For tables that are right on ASCII, \<open>is_blank_audio\<close> returns \<open>True\<close>
  exactly when every character of the text is one of the space, tab, line feed, carriage
  return and \<open>. , ! ? ; : ' "\<close>, or the letters of the text, lowercased, spell
  \<open>blankaudio\<close>. A text it calls blank is blank as the specification words it. The
  inputs \<open>"   ...!?"\<close>, \<open>""\<close>, \<open>"Blank Audio"\<close> and \<open>"BLANKAUDIO"\<close> are blank;
  \<open>"blank audio test"\<close> and \<open>"Hello, world."\<close> are not.
\<close>

theorem is_blank_audio_chars:
  assumes "agrees_on_ascii u"
  shows "is_blank_audio u text =
           (set text \<subseteq> {32, 9, 10, 13, 46, 44, 33, 63, 59, 58, 39, 34}
            \<or> concat (map (py_lower u) (filter (py_isalpha u) text)) = str ''blankaudio'')
       \<and> (is_blank_audio u text \<longrightarrow> blank_by_spec u text)
       \<and> is_blank_audio u (str ''   ...!?'')
       \<and> is_blank_audio u (str [])
       \<and> is_blank_audio u (str ''Blank Audio'')
       \<and> is_blank_audio u (str ''BLANKAUDIO'')
       \<and> \<not> is_blank_audio u (str ''blank audio test'')
       \<and> \<not> is_blank_audio u (str ''Hello, world.'')"
proof -
  have g: "is_blank_audio u text =
           (set text \<subseteq> {32, 9, 10, 13, 46, 44, 33, 63, 59, 58, 39, 34}
            \<or> concat (map (py_lower u) (filter (py_isalpha u) text)) = str ''blankaudio'')"
    by (simp add: is_blank_audio_iff letters_folded_def blank_chars_def)
  from g is_blank_audio_by_spec [of u "text"] ascii_examples(1-6) [OF assms]
  show ?thesis by blast
qed

theorem is_blank_audio_chars_witness:
  "agrees_on_ascii latin_tables
   \<and> is_blank_audio latin_tables (str ''Blank Audio'')
   \<and> \<not> is_blank_audio latin_tables (str ''Hello, world.'')
   \<and> is_blank_audio latin_tables [98, 108, 97, 110, 8490, 32, 97, 117, 100, 105, 111]
   \<and> \<not> is_blank_audio latin_tables [98, 108, 97, 110, 107, 97, 117, 100, 304, 111]"
proof -
  note t = is_blank_audio_chars [OF latin_agrees]
  have k: "is_blank_audio latin_tables [98, 108, 97, 110, 8490, 32, 97, 117, 100, 105, 111]"
    using t [of "[98, 108, 97, 110, 8490, 32, 97, 117, 100, 105, 111]"]
    by (simp add: latin_tables_def ascii_letter_def str_blankaudio)
  have i: "\<not> is_blank_audio latin_tables [98, 108, 97, 110, 107, 97, 117, 100, 304, 111]"
    using t [of "[98, 108, 97, 110, 107, 97, 117, 100, 304, 111]"]
    by (simp add: latin_tables_def ascii_letter_def str_blankaudio)
  from t [of "[]"] k i latin_agrees show ?thesis by simp
qed

subsection \<open>The toggle\<close>

lemma os_kill_signalling: "list_all signalling (snd (os_kill w n pid sig))"
  by (simp add: os_kill_def split: json.splits)

lemma wait_exit_signalling: "list_all signalling (snd (wait_exit w pid n k))"
proof (induction k arbitrary: n)
  case 0
  then show ?case by simp
next
  case (Suc k)
  obtain o1 es where ok: "os_kill w n pid 0 = (o1, es)" by (cases "os_kill w n pid 0")
  with os_kill_signalling [of w n pid 0] have es: "list_all signalling es" by simp
  obtain r es' where we: "wait_exit w pid (Suc n) k = (r, es')"
    by (cases "wait_exit w pid (Suc n) k")
  with Suc [of "Suc n"] have es': "list_all signalling es'" by simp
  from ok we es es' show ?case by (cases o1) simp_all
qed

lemma stop_daemon_signalling: "list_all signalling (snd (stop_daemon w pid))"
proof -
  obtain o1 es where ok: "os_kill w 0 pid SIGINT = (o1, es)" by (cases "os_kill w 0 pid SIGINT")
  with os_kill_signalling [of w 0 pid SIGINT] have es: "list_all signalling es" by simp
  obtain r es' where we: "wait_exit w pid 1 50 = (r, es')" by (cases "wait_exit w pid 1 50")
  with wait_exit_signalling [of w pid 1 50] have es': "list_all signalling es'" by simp
  from ok we es es' show ?thesis by (cases o1) (simp_all add: stop_daemon_def)
qed

lemma signalling_filter:
  assumes "list_all signalling es" and "\<And>e. signalling e \<Longrightarrow> \<not> P e"
  shows "filter P es = []"
  using assms by (induction es) auto

lemma stop_daemon_no_starts: "filter starts (snd (stop_daemon w pid)) = []"
proof (rule signalling_filter [OF stop_daemon_signalling])
  fix e show "signalling e \<Longrightarrow> \<not> starts e" by (cases e) simp_all
qed

lemma stop_daemon_no_transcribes: "filter transcribes (snd (stop_daemon w pid)) = []"
proof (rule signalling_filter [OF stop_daemon_signalling])
  fix e show "signalling e \<Longrightarrow> \<not> transcribes e" by (cases e) simp_all
qed

lemma clear_state_no_starts: "filter starts (snd (clear_state w sf)) = []"
  by (simp add: clear_state_def split: option.splits)

lemma clear_state_no_transcribes: "filter transcribes (snd (clear_state w sf)) = []"
  by (simp add: clear_state_def split: option.splits)

lemma clear_state_no_signals: "filter signals (snd (clear_state w sf)) = []"
  by (simp add: clear_state_def split: option.splits)



lemma notify_end_no_starts: "filter starts (snd (notify_end w)) = []"
  by (simp add: notify_end_def split: notifier.splits)

lemma notify_end_no_transcribes: "filter transcribes (snd (notify_end w)) = []"
  by (simp add: notify_end_def split: notifier.splits)

lemma transcribe_no_starts: "filter starts (snd (transcribe w p)) = []"
  by (simp add: transcribe_def split: whisper_result.splits)

lemma paste_text_no_starts: "filter starts (snd (paste_text w text)) = []"
  by (simp add: paste_text_def Let_def split: option.splits run_outcome.splits)

lemma check_and_transcribe_starts:
  "filter starts (trace (check_and_transcribe w wav_path tr sf)) = filter starts tr"
proof -
  have t: "\<And>p. filter starts (snd (transcribe w p)) = []" by (rule transcribe_no_starts)
  have q: "\<And>x. filter starts (snd (paste_text w x)) = []" by (rule paste_text_no_starts)
  show ?thesis
    using t q
    by (auto simp add: check_and_transcribe_def unhandled_def
        split: json.splits option.splits prod.splits sum.splits)
       (metis snd_conv)+
qed

lemma check_and_transcribe_state:
  "state_after (check_and_transcribe w wav_path tr sf) = sf"
  by (simp add: check_and_transcribe_def unhandled_def
      split: json.splits option.splits prod.splits sum.splits)

lemma dismiss_and_check_starts:
  "filter starts (trace (dismiss_and_check w wav_path tr sf)) = filter starts tr"
  using notify_end_no_starts [of w]
  by (cases "notify_end w")
     (auto simp add: dismiss_and_check_def unhandled_def check_and_transcribe_starts
        split: sum.splits)

lemma dismiss_and_check_state:
  "state_after (dismiss_and_check w wav_path tr sf) = sf"
  by (simp add: dismiss_and_check_def unhandled_def check_and_transcribe_state
      split: prod.splits sum.splits)

lemma dismiss_and_check_prefix:
  "\<exists>rest. trace (dismiss_and_check w wav_path tr sf) = tr @ rest"
  by (auto simp add: dismiss_and_check_def check_and_transcribe_def unhandled_def
      split: option.splits prod.splits sum.splits json.splits)

lemma stop_recording_starts:
  "filter starts (trace (stop_recording w state tr)) = filter starts tr"
proof -
  have a: "\<And>pid. filter starts (snd (stop_daemon w pid)) = []" by (rule stop_daemon_no_starts)
  have b: "\<And>sf. filter starts (snd (clear_state w sf)) = []" by (rule clear_state_no_starts)
  show ?thesis
    using a b
    by (auto simp add: stop_recording_def unhandled_def dismiss_and_check_starts
        split: sum.splits prod.splits)
       (metis snd_conv)+
qed

lemma stop_recording_state:
  "state_after (stop_recording w state tr) = state_file w
   \<or> state_after (stop_recording w state tr) = fst (clear_state w (state_file w))"
  by (auto simp add: stop_recording_def unhandled_def dismiss_and_check_state
      split: sum.splits prod.splits)

lemma read_state_no_starts: "filter starts (snd (read_state w)) = []"
  by (simp add: read_state_def split: option.splits load_result.splits)

lemma daemonize_starts:
  "filter starts (trace (daemonize_and_record w p tr)) = filter starts tr
   \<or> (\<exists>pid. fork_result w = Some pid \<and> 0 < pid
        \<and> (filter starts (trace (daemonize_and_record w p tr)) = filter starts tr @ [Fork pid]
           \<or> filter starts (trace (daemonize_and_record w p tr))
               = filter starts tr @ [Fork pid, WriteState pid p]))"
  by (auto simp add: daemonize_and_record_def unhandled_def write_state_def notify_start_def
      split: option.splits write_outcome.splits notifier.splits)

lemma main_active: "main active_world =
   \<lparr>outcome = Exit 1,
    trace = [Log INFO ''Stopping recording...'', Kill 4242 SIGINT, Unlink, NotifyEnd,
             Log ERROR ''Recording file missing''],
    state_after = None\<rparr>"
  by (simp add: main_def check_dependencies_def read_state_def active_world_def idle_world_def
      session_def stop_recording_def stop_daemon_def os_kill_def clear_state_def
      dismiss_and_check_def notify_end_def check_and_transcribe_def)

lemma main_idle: "main idle_world =
   \<lparr>outcome = Exit 0,
    trace = [Fork 4242, WriteState 4242 ''/tmp/s2t/rec-20240101-120000.wav'', NotifyStart,
             Log INFO ''recording started (run again to stop)''],
    state_after = Some (Loaded (session 4242 ''/tmp/s2t/rec-20240101-120000.wav''))\<rparr>"
  by (simp add: main_def check_dependencies_def read_state_def idle_world_def
      daemonize_and_record_def write_state_def notify_start_def new_wav_path_def path_join_def)

text \<open>
  C1. When \<open>read_state\<close> returns a record (anything but \<open>None\<close>), the invocation spawns
  no worker and writes no Session, and the state file afterwards is absent or as it was.
  A worker is spawned or a Session written only when \<open>read_state\<close> returned \<open>None\<close>, and
  then at most one worker is spawned and the one Session written, after the spawn, is
  that worker's. The state is one file, so at most one Session is persisted.
\<close>

theorem single_session:
  "(fst (read_state w) \<noteq> JNull \<longrightarrow>
      filter starts (trace (main w)) = []
      \<and> (state_after (main w) = None \<or> state_after (main w) = state_file w))
   \<and> (filter starts (trace (main w)) \<noteq> [] \<longrightarrow> fst (read_state w) = JNull)
   \<and> (filter starts (trace (main w)) = []
      \<or> (\<exists>pid. fork_result w = Some pid \<and> 0 < pid
           \<and> (filter starts (trace (main w)) = [Fork pid]
              \<or> filter starts (trace (main w)) = [Fork pid, WriteState pid (new_wav_path w)])))"
proof -
  obtain state tr where rs: "read_state w = (state, tr)" by (cases "read_state w")
  with read_state_no_starts [of w] have tr: "filter starts tr = []" by simp
  have dep: "\<And>es. check_dependencies w = Some es \<Longrightarrow> filter starts es = []"
    by (auto simp add: check_dependencies_def split: if_splits)
  have stop: "state \<noteq> JNull \<Longrightarrow> filter starts (trace (main w)) = []"
    using rs tr dep by (simp add: main_def stop_recording_starts split: option.splits)
  have cs: "fst (clear_state w (state_file w)) = None
      \<or> fst (clear_state w (state_file w)) = state_file w"
    by (simp add: clear_state_def split: option.splits)
  have st: "state \<noteq> JNull \<Longrightarrow> state_after (main w) = None \<or> state_after (main w) = state_file w"
    using rs cs stop_recording_state [of w state tr]
    by (auto simp add: main_def split: option.splits)
  have start: "state = JNull \<Longrightarrow> filter starts (trace (main w)) = []
      \<or> (\<exists>pid. fork_result w = Some pid \<and> 0 < pid
           \<and> (filter starts (trace (main w)) = [Fork pid]
              \<or> filter starts (trace (main w)) = [Fork pid, WriteState pid (new_wav_path w)]))"
    using rs tr dep daemonize_starts [of w "new_wav_path w" tr]
    by (auto simp add: main_def split: option.splits)
  from rs stop st start show ?thesis by (cases "state = JNull") auto
qed

theorem single_session_witness:
  "fst (read_state active_world) \<noteq> JNull
   \<and> filter starts (trace (main active_world)) = []
   \<and> state_after (main active_world) = None
   \<and> fst (read_state idle_world) = JNull
   \<and> filter starts (trace (main idle_world))
       = [Fork 4242, WriteState 4242 ''/tmp/s2t/rec-20240101-120000.wav'']"
  using single_session [of active_world] single_session [of idle_world]
  by (simp add: main_active main_idle)
     (simp add: read_state_def active_world_def idle_world_def session_def)

subsection \<open>The stop path on a well-formed Session\<close>

lemma well_formed_not_None: "well_formed state pid wav_path \<Longrightarrow> state \<noteq> JNull"
  by (auto simp add: well_formed_def)

lemma stop_recording_well_formed:
  "well_formed state pid wav_path \<Longrightarrow>
     stop_recording w state tr =
       dismiss_and_check w (JStr wav_path)
         (tr @ [Log INFO ''Stopping recording...''] @ snd (stop_daemon w (JInt pid))
            @ snd (clear_state w (state_file w)))
         (fst (clear_state w (state_file w)))"
  by (simp add: stop_recording_def well_formed_def split: prod.splits)

lemma main_well_formed:
  assumes "check_dependencies w = None" and "state_file w = Some (Loaded state)"
    and "well_formed state pid wav_path"
  shows "main w =
       dismiss_and_check w (JStr wav_path)
         ([Log INFO ''Stopping recording...''] @ snd (stop_daemon w (JInt pid))
            @ snd (clear_state w (state_file w)))
         (fst (clear_state w (state_file w)))"
  using assms well_formed_not_None [OF assms(3)]
    stop_recording_well_formed [OF assms(3), of w "[]"]
  by (simp add: main_def read_state_def)

lemma main_no_dependencies:
  "check_dependencies w = Some es \<Longrightarrow>
     main w = \<lparr>outcome = Exit 1, trace = es, state_after = state_file w\<rparr>
     \<and> filter transcribes es = []"
  by (auto simp add: main_def check_dependencies_def split: if_splits)

lemma dismiss_raises:
  "fst (notify_end w) \<noteq> Inr () \<Longrightarrow>
     dismiss_and_check w wav_path tr sf = unhandled (tr @ snd (notify_end w)) sf"
  by (cases "notify_end w") (auto simp add: dismiss_and_check_def split: sum.splits)

lemma dismiss_returns:
  "fst (notify_end w) = Inr () \<Longrightarrow>
     dismiss_and_check w wav_path tr sf =
       check_and_transcribe w wav_path (tr @ snd (notify_end w)) sf"
  by (cases "notify_end w") (auto simp add: dismiss_and_check_def split: sum.splits)

lemma check_missing_file:
  "file_size w p = None \<Longrightarrow>
     check_and_transcribe w (JStr p) tr sf =
       \<lparr>outcome = Exit 1, trace = tr @ [Log ERROR ''Recording file missing''], state_after = sf\<rparr>"
  by (simp add: check_and_transcribe_def)

lemma check_empty_file:
  "file_size w p = Some 0 \<Longrightarrow>
     check_and_transcribe w (JStr p) tr sf =
       \<lparr>outcome = Exit 1, trace = tr @ [Log ERROR ''Recording file is empty''], state_after = sf\<rparr>"
  by (simp add: check_and_transcribe_def)

lemma dismiss_bad_file:
  assumes "file_size w p = None \<or> file_size w p = Some 0"
  shows "outcome (dismiss_and_check w (JStr p) tr sf) = Exit 1
     \<and> filter transcribes (trace (dismiss_and_check w (JStr p) tr sf)) = filter transcribes tr"
proof (cases "fst (notify_end w) = Inr ()")
  case True
  with assms show ?thesis
    by (auto simp add: dismiss_returns check_missing_file check_empty_file
        notify_end_no_transcribes)
next
  case False
  then show ?thesis
    by (simp add: dismiss_raises unhandled_def notify_end_no_transcribes)
qed

lemma active_well_formed:
  "well_formed (session 4242 ''/tmp/s2t/rec.wav'') 4242 ''/tmp/s2t/rec.wav''"
  by (simp add: well_formed_def session_def)

text \<open>
  C4. With a well-formed Session in the state file, when the audio file is missing or
  has size zero the invocation exits with status 1 and \<open>transcribe\<close> is not called.
\<close>

theorem validation_gating:
  assumes sf: "state_file w = Some (Loaded state)"
    and wf: "well_formed state pid wav_path"
    and bad: "file_size w wav_path = None \<or> file_size w wav_path = Some 0"
  shows "outcome (main w) = Exit 1 \<and> filter transcribes (trace (main w)) = []"
proof (cases "check_dependencies w")
  case (Some es)
  then show ?thesis using main_no_dependencies [of w es] by simp
next
  case None
  note m = main_well_formed [OF None sf wf]
  from dismiss_bad_file [OF bad] show ?thesis
    by (simp add: m stop_daemon_no_transcribes clear_state_no_transcribes)
qed

theorem validation_gating_witness:
  "outcome (main active_world) = Exit 1
   \<and> filter transcribes (trace (main active_world)) = []
   \<and> file_size active_world ''/tmp/s2t/rec.wav'' = None
   \<and> outcome (main empty_wav_world) = Exit 1
   \<and> filter transcribes (trace (main empty_wav_world)) = []
   \<and> file_size empty_wav_world ''/tmp/s2t/rec.wav'' = Some 0"
  using validation_gating [of active_world "session 4242 ''/tmp/s2t/rec.wav''" 4242 "''/tmp/s2t/rec.wav''"]
    validation_gating [of empty_wav_world "session 4242 ''/tmp/s2t/rec.wav''" 4242 "''/tmp/s2t/rec.wav''"]
    active_well_formed
  by (simp add: empty_wav_world_def active_world_def idle_world_def)

lemma wait_exit_stuck:
  "\<forall>m. kill_result w m = Delivered \<Longrightarrow> - (2 ^ 31) \<le> p \<Longrightarrow> p < 2 ^ 31 \<Longrightarrow>
     fst (wait_exit w (JInt p) n k) = False
     \<and> snd (wait_exit w (JInt p) n k) \<noteq> []
     \<and> last (snd (wait_exit w (JInt p) n k)) = Log WARNING ''Daemon did not exit within 5 seconds''"
  by (induction k arbitrary: n) (simp_all add: os_kill_def case_prod_beta)

lemma stop_daemon_stuck:
  "\<forall>m. kill_result w m = Delivered \<Longrightarrow> - (2 ^ 31) \<le> p \<Longrightarrow> p < 2 ^ 31 \<Longrightarrow>
     fst (stop_daemon w (JInt p)) = False
     \<and> last (snd (stop_daemon w (JInt p))) = Log WARNING ''Daemon did not exit within 5 seconds''"
  using wait_exit_stuck [of w p 1 50]
  by (simp add: stop_daemon_def os_kill_def case_prod_beta)

lemma stop_daemon_gone:
  "kill_result w 0 = NoSuchProcess \<Longrightarrow> - (2 ^ 31) \<le> p \<Longrightarrow> p < 2 ^ 31 \<Longrightarrow>
     stop_daemon w (JInt p) = (True, [Kill p SIGINT])"
  by (simp add: stop_daemon_def os_kill_def)

lemma stop_daemon_unsignalled:
  "kill_result w 0 = KillFails \<Longrightarrow> - (2 ^ 31) \<le> p \<Longrightarrow> p < 2 ^ 31 \<Longrightarrow>
     stop_daemon w (JInt p) = (False, [Kill p SIGINT, Log ERROR ''Failed to stop daemon''])"
  by (simp add: stop_daemon_def os_kill_def)

lemma stop_daemon_exiting:
  "stop_daemon exiting_world (JInt 4242) =
     (True, [Kill 4242 SIGINT, Kill 4242 0, Sleep, Kill 4242 0, Sleep, Kill 4242 0])"
  by (simp add: stop_daemon_def exiting_world_def active_world_def idle_world_def os_kill_def
      numeral_eq_Suc)

text \<open>
  C5. With a well-formed Session in the state file, whatever \<open>os.kill\<close> answers (the
  worker exits during the wait, is still there after the 50 polls, does not exist, or
  cannot be signalled), \<open>clear_state\<close> runs right after \<open>stop_daemon\<close> and the state
  file is what \<open>clear_state\<close> leaves: absent, whenever the \<open>unlink\<close> does not raise
  (one that raises is only logged by \<open>clear_state\<close>).
\<close>

theorem session_cleared:
  assumes m: "check_dependencies w = None"
    and sf: "state_file w = Some (Loaded state)"
    and wf: "well_formed state pid wav_path"
  shows "state_after (main w) = fst (clear_state w (state_file w))
     \<and> take (Suc (length (snd (stop_daemon w (JInt pid)))
               + length (snd (clear_state w (state_file w))))) (trace (main w))
         = Log INFO ''Stopping recording...'' # snd (stop_daemon w (JInt pid))
             @ snd (clear_state w (state_file w))
     \<and> (\<not> unlink_fails w \<longrightarrow>
          state_after (main w) = None \<and> clear_state w (state_file w) = (None, [Unlink]))"
proof -
  let ?sd = "snd (stop_daemon w (JInt pid))"
  let ?cs = "snd (clear_state w (state_file w))"
  let ?sf = "fst (clear_state w (state_file w))"
  note mw = main_well_formed [OF m sf wf]
  have st: "state_after (main w) = ?sf"
    by (simp add: mw dismiss_and_check_state)
  from dismiss_and_check_prefix
    [of w "JStr wav_path" "[Log INFO ''Stopping recording...''] @ ?sd @ ?cs" ?sf]
  obtain rest where "trace (main w) = ([Log INFO ''Stopping recording...'']
      @ ?sd @ ?cs) @ rest"
    using mw by auto
  then have tk: "take (Suc (length ?sd + length ?cs)) (trace (main w))
         = Log INFO ''Stopping recording...'' # ?sd @ ?cs"
    by simp
  have ok: "\<not> unlink_fails w \<Longrightarrow> clear_state w (state_file w) = (None, [Unlink])"
    using sf by (simp add: clear_state_def)
  from st tk ok show ?thesis by auto
qed

lemma world_deps:
  "check_dependencies idle_world = None" "check_dependencies active_world = None"
  by (simp_all add: check_dependencies_def active_world_def idle_world_def)

theorem session_cleared_witness:
  "state_after (main active_world) = None
   \<and> stop_daemon active_world (JInt 4242) = (True, [Kill 4242 SIGINT])
   \<and> state_after (main exiting_world) = None
   \<and> fst (stop_daemon exiting_world (JInt 4242)) = True
   \<and> state_after (main stuck_world) = None
   \<and> fst (stop_daemon stuck_world (JInt 4242)) = False
   \<and> state_after (main unsignalled_world) = None
   \<and> fst (stop_daemon unsignalled_world (JInt 4242)) = False"
proof -
  let ?s = "session 4242 ''/tmp/s2t/rec.wav''"
  let ?p = "''/tmp/s2t/rec.wav''"
  have a: "state_after (main active_world) = None"
    using session_cleared [of active_world ?s 4242 ?p] active_well_formed
    by (simp add: check_dependencies_def active_world_def idle_world_def)
  have b: "state_after (main exiting_world) = None"
    using session_cleared [of exiting_world ?s 4242 ?p] active_well_formed
    by (simp add: check_dependencies_def exiting_world_def active_world_def idle_world_def)
  have c: "state_after (main stuck_world) = None"
    using session_cleared [of stuck_world ?s 4242 ?p] active_well_formed
    by (simp add: check_dependencies_def stuck_world_def active_world_def idle_world_def)
  have d: "state_after (main unsignalled_world) = None"
    using session_cleared [of unsignalled_world ?s 4242 ?p] active_well_formed
    by (simp add: check_dependencies_def unsignalled_world_def active_world_def idle_world_def)
  have a': "stop_daemon active_world (JInt 4242) = (True, [Kill 4242 SIGINT])"
    using stop_daemon_gone [of active_world 4242] by (simp add: active_world_def idle_world_def)
  have b': "fst (stop_daemon exiting_world (JInt 4242)) = True"
    by (simp add: stop_daemon_exiting)
  have c': "fst (stop_daemon stuck_world (JInt 4242)) = False"
    using stop_daemon_stuck [of stuck_world 4242]
    by (simp add: stuck_world_def active_world_def idle_world_def)
  have d': "fst (stop_daemon unsignalled_world (JInt 4242)) = False"
    using stop_daemon_unsignalled [of unsignalled_world 4242]
    by (simp add: unsignalled_world_def active_world_def idle_world_def)
  from a b c d a' b' c' d' show ?thesis by simp
qed



subsection \<open>State files that are not a Session\<close>

lemma main_invalid:
  assumes m: "check_dependencies w = None"
    and sf: "state_file w = Some (Loaded (JObj kvs))"
    and f: "py_get (JObj kvs) ''pid'' = Inr a" "py_get (JObj kvs) ''wav_path'' = Inr b"
    and bad: "\<not> truthy a \<or> \<not> truthy b"
  shows "main w =
     \<lparr>outcome = Exit 1,
      trace = Log ERROR ''Invalid state file'' # snd (clear_state w (state_file w)),
      state_after = fst (clear_state w (state_file w))\<rparr>"
proof -
  have "stop_recording w (JObj kvs) [] =
     \<lparr>outcome = Exit 1,
      trace = Log ERROR ''Invalid state file'' # snd (clear_state w (state_file w)),
      state_after = fst (clear_state w (state_file w))\<rparr>"
    using f bad unfolding stop_recording_def by (auto simp add: case_prod_beta)
  with m sf show ?thesis
    by (simp add: main_def read_state_def)
qed

text \<open>
  C7. When the state file holds a dict without the key \<open>pid\<close> or without the key
  \<open>wav_path\<close>, the invocation logs the invalid state, calls \<open>clear_state\<close> and exits
  with status 1; it sends no signal and does not call \<open>transcribe\<close>. The state file is
  absent afterwards whenever the \<open>unlink\<close> does not raise.
\<close>

theorem missing_field_session:
  assumes m: "check_dependencies w = None"
    and sf: "state_file w = Some (Loaded (JObj kvs))"
    and miss: "map_of kvs ''pid'' = None \<or> map_of kvs ''wav_path'' = None"
  shows "outcome (main w) = Exit 1
     \<and> trace (main w) = Log ERROR ''Invalid state file'' # snd (clear_state w (state_file w))
     \<and> state_after (main w) = fst (clear_state w (state_file w))
     \<and> filter signals (trace (main w)) = []
     \<and> filter transcribes (trace (main w)) = []
     \<and> (\<not> unlink_fails w \<longrightarrow>
          state_after (main w) = None
          \<and> trace (main w) = [Log ERROR ''Invalid state file'', Unlink])"
proof -
  let ?a = "case map_of kvs ''pid'' of None \<Rightarrow> JNull | Some v \<Rightarrow> v"
  let ?b = "case map_of kvs ''wav_path'' of None \<Rightarrow> JNull | Some v \<Rightarrow> v"
  have f: "py_get (JObj kvs) ''pid'' = Inr ?a" "py_get (JObj kvs) ''wav_path'' = Inr ?b"
    by (simp_all split: option.splits)
  from miss have "\<not> truthy ?a \<or> \<not> truthy ?b" by auto
  note mi = main_invalid [OF m sf f this]
  have ok: "\<not> unlink_fails w \<Longrightarrow> clear_state w (state_file w) = (None, [Unlink])"
    using sf by (simp add: clear_state_def)
  from mi ok show ?thesis
    by (auto simp add: clear_state_no_signals clear_state_no_transcribes)
qed

theorem missing_field_session_witness:
  "map_of [(''wav_path'', JStr ''/tmp/s2t/rec.wav'')] ''pid'' = None
   \<and> outcome (main no_pid_world) = Exit 1
   \<and> state_after (main no_pid_world) = None
   \<and> state_file no_pid_world \<noteq> None
   \<and> filter signals (trace (main no_pid_world)) = []
   \<and> filter transcribes (trace (main no_pid_world)) = []"
  using missing_field_session [of no_pid_world "[(''wav_path'', JStr ''/tmp/s2t/rec.wav'')]"]
  by (simp add: check_dependencies_def no_pid_world_def idle_world_def clear_state_def)

text \<open>
  C10. When the state file holds a dict with both keys, but the pid is 0 or the path is
  the empty string, the invocation does the same (it logs the invalid state, calls
  \<open>clear_state\<close> and exits with status 1, the state file being absent afterwards whenever
  the \<open>unlink\<close> does not raise): the check is \<open>not pid or not wav_path\<close>, the truth
  value of the fields.
\<close>

theorem falsy_field_session:
  assumes m: "check_dependencies w = None"
    and sf: "state_file w = Some (Loaded (JObj kvs))"
    and pid: "map_of kvs ''pid'' = Some a"
    and wav: "map_of kvs ''wav_path'' = Some b"
    and falsy: "a = JInt 0 \<or> b = JStr []"
  shows "main w =
       \<lparr>outcome = Exit 1,
        trace = Log ERROR ''Invalid state file'' # snd (clear_state w (state_file w)),
        state_after = fst (clear_state w (state_file w))\<rparr>
     \<and> (\<not> unlink_fails w \<longrightarrow>
          main w =
            \<lparr>outcome = Exit 1, trace = [Log ERROR ''Invalid state file'', Unlink],
             state_after = None\<rparr>)"
proof -
  from pid wav have f: "py_get (JObj kvs) ''pid'' = Inr a" "py_get (JObj kvs) ''wav_path'' = Inr b"
    by simp_all
  from falsy have "\<not> truthy a \<or> \<not> truthy b" by auto
  note mi = main_invalid [OF m sf f this]
  have ok: "\<not> unlink_fails w \<Longrightarrow> clear_state w (state_file w) = (None, [Unlink])"
    using sf by (simp add: clear_state_def)
  from mi ok show ?thesis by auto
qed

theorem falsy_field_session_witness:
  "main zero_pid_world =
     \<lparr>outcome = Exit 1, trace = [Log ERROR ''Invalid state file'', Unlink], state_after = None\<rparr>
   \<and> main empty_path_world =
     \<lparr>outcome = Exit 1, trace = [Log ERROR ''Invalid state file'', Unlink], state_after = None\<rparr>
   \<and> state_file zero_pid_world = Some (Loaded (session 0 ''/tmp/s2t/rec.wav''))
   \<and> state_file empty_path_world = Some (Loaded (session 4242 []))"
  using falsy_field_session [of zero_pid_world
      "[(''pid'', JInt 0), (''wav_path'', JStr ''/tmp/s2t/rec.wav'')]" "JInt 0"
      "JStr ''/tmp/s2t/rec.wav''"]
    falsy_field_session [of empty_path_world
      "[(''pid'', JInt 4242), (''wav_path'', JStr [])]" "JInt 4242" "JStr []"]
  by (simp add: check_dependencies_def zero_pid_world_def empty_path_world_def idle_world_def
      session_def clear_state_def)








subsection \<open>Delivery\<close>










end
